theory Spec2Isabelle
  imports Main "HOL-Library.Signed_Division"
begin

section \<open>Lease-based leader election cell (pkg/arangod/agency/election)\<close>

text \<open>
  The election cell talks to an agency (a consensus key-value store) and to the clock.
  Both are outside the package, so every answer they give is an input of the model: a call
  of \<open>Update\<close> consumes one \<open>round\<close> of answers per pass of its \<open>for\<close> loop, and every
  function returns, next to its Go results, the cell as it leaves it and the list of
  calls it made to the outside (with the answers it got).
\<close>

subsection \<open>Time (package time of the standard library)\<close>

text \<open>
  A \<open>time.Time\<close> is modelled by its wall-clock nanoseconds since the Unix epoch, a
  \<open>time.Duration\<close> by its nanoseconds. \<open>Time.Sub\<close> saturates at the range of the
  64-bit duration, as the library does; Go's \<open>/\<close> on integers truncates towards zero,
  which is \<open>sdiv\<close>. Seconds and nanoseconds are integers without bound: the 64-bit
  fields of the code are only compared, copied and handed to the library, whose own
  counters are taken not to overflow.
\<close>

type_synonym time = int
type_synonym duration = int

definition Millisecond :: duration where
  "Millisecond = 1000000"

definition Second :: duration where
  "Second = 1000000000"

definition minDuration :: duration where
  "minDuration = - (2 ^ 63)"

definition maxDuration :: duration where
  "maxDuration = 2 ^ 63 - 1"

definition time_Unix_of :: "time \<Rightarrow> int" where
  \<comment> \<open>\<open>t.Unix()\<close>: whole seconds since the epoch\<close>
  "time_Unix_of t = t div Second"

definition time_Unix :: "int \<Rightarrow> time" where
  \<comment> \<open>\<open>time.Unix(sec, 0)\<close>\<close>
  "time_Unix sec = sec * Second"

definition time_Add :: "time \<Rightarrow> duration \<Rightarrow> time" where
  "time_Add t d = t + d"

definition time_Sub :: "time \<Rightarrow> time \<Rightarrow> duration" where
  "time_Sub t u =
     (if t - u < minDuration then minDuration
      else if maxDuration < t - u then maxDuration
      else t - u)"

subsection \<open>Errors and the agency's transactions (go-driver)\<close>

text \<open>
  The cell looks at an error only through \<open>agency.IsKeyNotFound\<close> and
  \<open>driver.IsPreconditionFailed\<close>; every other error (transport, timeout, store) is an
  \<open>OtherError\<close> with its message.
\<close>

datatype error = KeyNotFound | PreconditionFailed | OtherError string

fun IsKeyNotFound :: "error \<Rightarrow> bool" where
  "IsKeyNotFound KeyNotFound = True"
| "IsKeyNotFound PreconditionFailed = False"
| "IsKeyNotFound (OtherError m) = False"

fun IsPreconditionFailed :: "error \<Rightarrow> bool" where
  "IsPreconditionFailed KeyNotFound = False"
| "IsPreconditionFailed PreconditionFailed = True"
| "IsPreconditionFailed (OtherError m) = False"

definition keyData :: string where
  "keyData = ''data''"

definition keyTTL :: string where
  "keyTTL = ''ttl''"

record 'a leaderStruct =
  Data :: 'a
  TTL :: int

datatype 'a keyChange =
    KeySet "string list" "'a leaderStruct" duration
  | KeyDelete "string list"

datatype condition = ConditionOldEmpty bool | ConditionIfEqual int

record 'a transaction =
  keys :: "'a keyChange list"
  conditions :: "(string list \<times> condition) list"

definition NewTransaction :: "'a transaction" where
  "NewTransaction = \<lparr>keys = [], conditions = []\<rparr>"

definition AddKey :: "'a keyChange \<Rightarrow> 'a transaction \<Rightarrow> 'a transaction" where
  "AddKey k trx = trx\<lparr>keys := keys trx @ [k]\<rparr>"

definition AddCondition :: "string list \<Rightarrow> condition \<Rightarrow> 'a transaction \<Rightarrow> 'a transaction" where
  "AddCondition k c trx = trx\<lparr>conditions := conditions trx @ [(k, c)]\<rparr>"

text \<open>What the cell did to the outside, in order, each call with the answer it got.\<close>

datatype 'a event =
    ReadKey "string list" "'a leaderStruct \<times> error option"
  | Now time
  | WriteTransaction "'a transaction" "error option"
  | CtxErr bool
  | Sleep duration

subsection \<open>The cell\<close>

record LeaderElectionCell =
  lastTTL :: int
  leading :: bool
  key :: "string list"
  ttl :: duration

definition NewLeaderElectionCell :: "string list \<Rightarrow> duration \<Rightarrow> LeaderElectionCell" where
  "NewLeaderElectionCell k t = \<lparr>lastTTL = 0, leading = False, key = k, ttl = t\<rparr>"

text \<open>
  \<open>tryBecomeLeader\<close>: \<open>now\<close> is the answer of \<open>time.Now()\<close>, \<open>wresp\<close> the answer of
  \<open>cli.WriteTransaction\<close>.
\<close>

definition tryBecomeLeader ::
  "LeaderElectionCell \<Rightarrow> 'a \<Rightarrow> bool \<Rightarrow> time \<Rightarrow> error option
   \<Rightarrow> error option \<times> LeaderElectionCell \<times> 'a event list" where
  "tryBecomeLeader l val assumeEmpty now wresp =
     (let trx = NewTransaction;
          newTTL = time_Unix_of (time_Add now (ttl l));
          trx = AddKey (KeySet (key l) \<lparr>Data = val, TTL = newTTL\<rparr> 0) trx;
          trx = (if assumeEmpty then AddCondition (key l) (ConditionOldEmpty True) trx
                 else AddCondition (key l @ [keyTTL]) (ConditionIfEqual (lastTTL l)) trx)
      in case wresp of
           None \<Rightarrow>
             (None, l\<lparr>lastTTL := newTTL, leading := True\<rparr>,
              [Now now, WriteTransaction trx wresp])
         | Some err \<Rightarrow> (Some err, l, [Now now, WriteTransaction trx wresp]))"

text \<open>
  \<open>readCell\<close>: \<open>rresp\<close> is what \<open>cli.ReadKey\<close> left in \<open>result\<close> together with the
  error it returned.
\<close>

definition readCell ::
  "LeaderElectionCell \<Rightarrow> 'a leaderStruct \<times> error option
   \<Rightarrow> ('a leaderStruct \<times> error option) \<times> LeaderElectionCell \<times> 'a event list" where
  "readCell l rresp =
     (case rresp of
        (result, Some err) \<Rightarrow> ((result, Some err), l, [ReadKey (key l) rresp])
      | (result, None) \<Rightarrow> ((result, None), l, [ReadKey (key l) rresp]))"

text \<open>\<open>Read\<close>; \<open>def\<close> is the zero value of the payload type \<open>T\<close>.\<close>

definition Read ::
  "'a \<Rightarrow> LeaderElectionCell \<Rightarrow> 'a leaderStruct \<times> error option
   \<Rightarrow> ('a \<times> error option) \<times> LeaderElectionCell \<times> 'a event list" where
  "Read def l rresp =
     (case readCell l rresp of
        ((result, Some err), l', tr) \<Rightarrow>
          if IsKeyNotFound err then ((def, None), l', tr) else ((def, Some err), l', tr)
      | ((result, None), l', tr) \<Rightarrow> ((Data result, None), l', tr))"

subsection \<open>Update\<close>

text \<open>The answers of the outside that one pass of the loop of \<open>Update\<close> may ask for.\<close>

record 'a round =
  read_resp :: "'a leaderStruct \<times> error option"  \<comment> \<open>\<open>cli.ReadKey\<close> in \<open>readCell\<close>\<close>
  now_read :: time                                  \<comment> \<open>\<open>time.Now()\<close> after the read\<close>
  now_write :: time                                 \<comment> \<open>\<open>time.Now()\<close> in \<open>tryBecomeLeader\<close>\<close>
  write_resp :: "error option"                      \<comment> \<open>\<open>cli.WriteTransaction\<close>\<close>
  ctx_err :: bool                                   \<comment> \<open>\<open>ctx.Err() != nil\<close>\<close>

definition minUpdateDelay :: duration where
  "minUpdateDelay = Millisecond * 500"

text \<open>
  The loop body up to the label \<open>tryLeaderElection\<close>: it either returns from \<open>Update\<close>
  or jumps to the label with a value of \<open>assumeEmpty\<close>. A read error that is not
  not-found leaves this part as the code does: with \<open>assumeEmpty = false\<close> and on to the
  block that looks at \<open>result\<close>. \<open>reflect.DeepEqual\<close> on the comparable payload is
  equality.
\<close>

datatype 'a decision =
    TryLeaderElection bool
  | Returned "'a \<times> bool \<times> duration \<times> error option"

definition Update_decide ::
  "LeaderElectionCell \<Rightarrow> 'a \<Rightarrow> 'a round
   \<Rightarrow> 'a decision \<times> LeaderElectionCell \<times> 'a event list" where
  "Update_decide l val rd =
     (case readCell l (read_resp rd) of ((result, err), l, tr) \<Rightarrow>
        if (case err of Some e \<Rightarrow> IsKeyNotFound e | None \<Rightarrow> False)
        then (TryLeaderElection True, l, tr)
        else
          let now = now_read rd; tr = tr @ [Now now] in
          if TTL result < time_Unix_of now
          then (TryLeaderElection False, l\<lparr>lastTTL := TTL result, leading := False\<rparr>, tr)
          else
            let l = (if TTL result > time_Unix_of now \<and> \<not> leading l \<and> lastTTL l = 0
                     then l\<lparr>lastTTL := TTL result, leading := (Data result = val)\<rparr>
                     else l)
            in if TTL result = lastTTL l \<and> leading l
               then (TryLeaderElection False, l, tr)
               else
                 let l = l\<lparr>lastTTL := TTL result, leading := False\<rparr>;
                     updateDelay = time_Sub (time_Unix (lastTTL l)) now;
                     updateDelay = (if updateDelay < minUpdateDelay then minUpdateDelay
                                    else updateDelay)
                 in (Returned (Data result, False, updateDelay, None), l, tr))"

text \<open>The loop body from the label on: it returns from \<open>Update\<close> or sleeps and loops.\<close>

datatype 'a outcome =
    Return "'a \<times> bool \<times> duration \<times> error option"
  | Continue

definition Update_tryLeaderElection ::
  "'a \<Rightarrow> LeaderElectionCell \<Rightarrow> 'a \<Rightarrow> bool \<Rightarrow> 'a round
   \<Rightarrow> 'a outcome \<times> LeaderElectionCell \<times> 'a event list" where
  "Update_tryLeaderElection def l val assumeEmpty rd =
     (case tryBecomeLeader l val assumeEmpty (now_write rd) (write_resp rd) of
        (None, l, tr) \<Rightarrow> (Return (val, True, ttl l sdiv 2, None), l, tr)
      | (Some err, l, tr) \<Rightarrow>
          if \<not> IsPreconditionFailed err then (Return (def, False, 0, Some err), l, tr)
          else if ctx_err rd then (Return (def, False, 0, Some err), l, tr @ [CtxErr True])
          else (Continue, l, tr @ [CtxErr False, Sleep minUpdateDelay]))"

definition Update_body ::
  "'a \<Rightarrow> LeaderElectionCell \<Rightarrow> 'a \<Rightarrow> 'a round
   \<Rightarrow> 'a outcome \<times> LeaderElectionCell \<times> 'a event list" where
  "Update_body def l val rd =
     (case Update_decide l val rd of
        (Returned r, l, tr) \<Rightarrow> (Return r, l, tr)
      | (TryLeaderElection assumeEmpty, l, tr) \<Rightarrow>
          (case Update_tryLeaderElection def l val assumeEmpty rd of
             (out, l, tr') \<Rightarrow> (out, l, tr @ tr')))"

text \<open>
  The loop. It runs as long as the write loses its precondition and the context is not
  done, which the outside may keep up for ever: the rounds are the fuel, and \<open>None\<close>
  says that \<open>Update\<close> has not returned within the rounds given.
\<close>

fun Update ::
  "'a \<Rightarrow> LeaderElectionCell \<Rightarrow> 'a \<Rightarrow> 'a round list
   \<Rightarrow> (('a \<times> bool \<times> duration \<times> error option) \<times> LeaderElectionCell \<times> 'a event list) option" where
  "Update def l val [] = None"
| "Update def l val (rd # rds) =
     (case Update_body def l val rd of
        (Return r, l', tr) \<Rightarrow> Some (r, l', tr)
      | (Continue, l', tr) \<Rightarrow>
          (case Update def l' val rds of
             None \<Rightarrow> None
           | Some (r, l'', tr') \<Rightarrow> Some (r, l'', tr @ tr')))"

subsection \<open>Resign\<close>

text \<open>\<open>wresp\<close> is the answer of \<open>cli.WriteTransaction\<close>, asked for only when the cell leads.\<close>

definition Resign ::
  "LeaderElectionCell \<Rightarrow> error option
   \<Rightarrow> error option \<times> LeaderElectionCell \<times> 'a event list" where
  "Resign l wresp =
     (if \<not> leading l then (None, l, [])
      else
        let l = l\<lparr>leading := False\<rparr>;
            trx = NewTransaction;
            trx = AddCondition (key l @ [keyTTL]) (ConditionIfEqual (lastTTL l)) trx;
            trx = AddKey (KeyDelete (key l)) trx
        in case wresp of
             Some err \<Rightarrow>
               if IsPreconditionFailed err then (None, l, [WriteTransaction trx wresp])
               else (Some err, l, [WriteTransaction trx wresp])
           | None \<Rightarrow> (None, l, [WriteTransaction trx wresp]))"

text \<open>The write transactions among the calls made.\<close>

fun writes :: "'a event list \<Rightarrow> 'a transaction list" where
  "writes [] = []"
| "writes (ReadKey k r # es) = writes es"
| "writes (Now t # es) = writes es"
| "writes (WriteTransaction t r # es) = t # writes es"
| "writes (CtxErr b # es) = writes es"
| "writes (Sleep d # es) = writes es"


section \<open>Properties\<close>

subsection \<open>Auxiliary facts about one pass of the loop\<close>

lemmas trx_defs = NewTransaction_def AddKey_def AddCondition_def

lemma tryBecomeLeader_eq:
  "tryBecomeLeader l val assumeEmpty now wresp =
     (wresp,
      (case wresp of
         None \<Rightarrow> l\<lparr>lastTTL := time_Unix_of (time_Add now (ttl l)), leading := True\<rparr>
       | Some err \<Rightarrow> l),
      [Now now,
       WriteTransaction
         \<lparr>keys = [KeySet (key l) \<lparr>Data = val, TTL = time_Unix_of (time_Add now (ttl l))\<rparr> 0],
          conditions = [if assumeEmpty then (key l, ConditionOldEmpty True)
                        else (key l @ [keyTTL], ConditionIfEqual (lastTTL l))]\<rparr>
         wresp])"
  by (simp add: tryBecomeLeader_def trx_defs Let_def split: option.splits)

lemma Update_decide_key: "key (fst (snd (Update_decide l val rd))) = key l"
  by (simp add: Update_decide_def readCell_def Let_def split: prod.splits option.splits)

lemma Update_decide_ttl: "ttl (fst (snd (Update_decide l val rd))) = ttl l"
  by (simp add: Update_decide_def readCell_def Let_def split: prod.splits option.splits)

lemma Update_decide_frame:
  assumes "Update_decide l val rd = (dec, l1, tr1)"
  shows "key l1 = key l" and "ttl l1 = ttl l"
  using Update_decide_key[of l val rd] Update_decide_ttl[of l val rd] assms by simp_all

lemma Update_decide_writes:
  "writes (snd (snd (Update_decide l val rd))) = []"
  by (auto simp: Update_decide_def readCell_def Let_def split: prod.splits option.splits if_splits)

lemma Update_tryLeaderElection_frame:
  assumes "Update_tryLeaderElection def l val ae rd = (out, l', tr)"
  shows "key l' = key l" and "ttl l' = ttl l"
  using assms
  by (auto simp: Update_tryLeaderElection_def tryBecomeLeader_eq split: option.splits if_splits)

lemma Update_body_frame:
  assumes "Update_body def l val rd = (out, l', tr)"
  shows "key l' = key l" and "ttl l' = ttl l"
proof -
  obtain dec l1 tr1 where d: "Update_decide l val rd = (dec, l1, tr1)"
    by (cases "Update_decide l val rd") auto
  show "key l' = key l" and "ttl l' = ttl l"
    using assms d Update_decide_frame[OF d]
    by (auto simp: Update_body_def split: decision.splits prod.splits
             dest: Update_tryLeaderElection_frame)
qed

lemma Update_decide_Returned:
  assumes "Update_decide l val rd = (Returned (v, b, d, e), l1, tr1)"
  shows "\<exists>r re. read_resp rd = (r, re) \<and> tr1 = [ReadKey (key l) (r, re), Now (now_read rd)]
           \<and> v = Data r \<and> \<not> b \<and> e = None \<and> lastTTL l1 = TTL r \<and> \<not> leading l1
           \<and> d = max minUpdateDelay (time_Sub (time_Unix (TTL r)) (now_read rd))"
  using assms
  by (cases "read_resp rd")
     (auto simp: Update_decide_def readCell_def Let_def max_def
           split: option.splits if_splits)

lemma Update_tryLeaderElection_cases:
  "Update_tryLeaderElection def l val ae rd =
     (case write_resp rd of
        None \<Rightarrow>
          (Return (val, True, ttl l sdiv 2, None),
           l\<lparr>lastTTL := time_Unix_of (time_Add (now_write rd) (ttl l)), leading := True\<rparr>,
           snd (snd (tryBecomeLeader l val ae (now_write rd) None)))
      | Some err \<Rightarrow>
          if \<not> IsPreconditionFailed err
          then (Return (def, False, 0, Some err), l,
                snd (snd (tryBecomeLeader l val ae (now_write rd) (Some err))))
          else if ctx_err rd
          then (Return (def, False, 0, Some err), l,
                snd (snd (tryBecomeLeader l val ae (now_write rd) (Some err))) @ [CtxErr True])
          else (Continue, l,
                snd (snd (tryBecomeLeader l val ae (now_write rd) (Some err)))
                  @ [CtxErr False, Sleep minUpdateDelay]))"
  by (simp add: Update_tryLeaderElection_def tryBecomeLeader_eq split: option.splits)

lemma Update_body_Continue:
  assumes "Update_body def l val rd = (Continue, l', tr)"
  shows "WriteTransaction trx None \<notin> set tr"
proof -
  obtain dec l1 tr1 where d: "Update_decide l val rd = (dec, l1, tr1)"
    by (cases "Update_decide l val rd") auto
  have "writes tr1 = []"
    using Update_decide_writes[of l val rd] d by simp
  then have no: "WriteTransaction trx None \<notin> set tr1"
    by (induction tr1 rule: writes.induct) auto
  show ?thesis
    using assms d no
    by (auto simp: Update_body_def Update_tryLeaderElection_cases tryBecomeLeader_eq
             split: decision.splits option.splits if_splits)
qed

lemma Update_body_Return_error:
  assumes "Update_body def l val rd = (Return (v, b, d, Some e), l', tr)"
  shows "v = def \<and> \<not> b \<and> d = 0"
proof -
  obtain dec l1 tr1 where d: "Update_decide l val rd = (dec, l1, tr1)"
    by (cases "Update_decide l val rd") auto
  show ?thesis
  proof (cases dec)
    case (TryLeaderElection ae)
    then show ?thesis
      using assms d
      by (auto simp: Update_body_def Update_tryLeaderElection_cases
               split: option.splits if_splits)
  next
    case (Returned r)
    then show ?thesis
      using assms d Update_decide_Returned[of l val rd v b d "Some e" l1 tr1]
      by (auto simp: Update_body_def)
  qed
qed


lemma Update_body_Return_write_ok:
  assumes "Update_body def l val rd = (Return (v, b, d, e), l', tr)"
    and "WriteTransaction trx None \<in> set tr"
  shows "\<exists>tr0 now. tr = tr0 @ [Now now, WriteTransaction trx None]
           \<and> keys trx = [KeySet (key l) \<lparr>Data = val, TTL = time_Unix_of (time_Add now (ttl l))\<rparr> 0]
           \<and> lastTTL l' = time_Unix_of (time_Add now (ttl l)) \<and> leading l'
           \<and> v = val \<and> b \<and> d = ttl l sdiv 2 \<and> e = None"
proof -
  obtain dec l1 tr1 where d: "Update_decide l val rd = (dec, l1, tr1)"
    by (cases "Update_decide l val rd") auto
  have "writes tr1 = []"
    using Update_decide_writes[of l val rd] d by simp
  then have no: "WriteTransaction trx None \<notin> set tr1"
    by (induction tr1 rule: writes.induct) auto
  note fr = Update_decide_frame[OF d]
  show ?thesis
  proof (cases dec)
    case (TryLeaderElection ae)
    then show ?thesis
      using assms d no fr
      by (auto simp: Update_body_def Update_tryLeaderElection_cases tryBecomeLeader_eq
               split: option.splits if_splits)
  next
    case (Returned r)
    then show ?thesis
      using assms d no by (auto simp: Update_body_def)
  qed
qed

lemma Update_successful_write_is_last:
  assumes "Update def l val rds = Some ((v, b, d, e), l', tr)"
    and "WriteTransaction trx None \<in> set tr"
  shows "\<exists>tr0 now. tr = tr0 @ [Now now, WriteTransaction trx None]
           \<and> keys trx = [KeySet (key l) \<lparr>Data = val, TTL = time_Unix_of (time_Add now (ttl l))\<rparr> 0]
           \<and> lastTTL l' = time_Unix_of (time_Add now (ttl l)) \<and> leading l'
           \<and> v = val \<and> b \<and> d = ttl l sdiv 2 \<and> e = None"
  using assms
proof (induction rds arbitrary: l tr)
  case Nil
  then show ?case by simp
next
  case (Cons rd rds)
  obtain out l1 tr1 where b: "Update_body def l val rd = (out, l1, tr1)"
    by (cases "Update_body def l val rd") auto
  show ?case
  proof (cases out)
    case (Return res)
    with Cons.prems b have "Update_body def l val rd = (Return (v, b, d, e), l', tr)"
      by simp
    from Update_body_Return_write_ok[OF this Cons.prems(2)] show ?thesis .
  next
    case Continue
    with Cons.prems b obtain tr' where u: "Update def l1 val rds = Some ((v, b, d, e), l', tr')"
        and t: "tr = tr1 @ tr'"
      by (auto split: option.splits)
    have "WriteTransaction trx None \<notin> set tr1"
      using b Continue by (simp add: Update_body_Continue)
    with Cons.prems(2) t have "WriteTransaction trx None \<in> set tr'"
      by simp
    from Cons.IH[OF u this] obtain tr0 now where
      "tr' = tr0 @ [Now now, WriteTransaction trx None]"
      "keys trx = [KeySet (key l1) \<lparr>Data = val, TTL = time_Unix_of (time_Add now (ttl l1))\<rparr> 0]"
      "lastTTL l' = time_Unix_of (time_Add now (ttl l1))" "leading l'"
      "v = val" "b" "d = ttl l1 sdiv 2" "e = None"
      by blast
    then show ?thesis
      using t Update_body_frame[OF b]
      by (intro exI[of _ "tr1 @ tr0"] exI[of _ now]) simp
  qed
qed

lemmas cell_defs = Update_body_def Update_decide_def Update_tryLeaderElection_def
  tryBecomeLeader_def readCell_def NewLeaderElectionCell_def NewTransaction_def AddKey_def
  AddCondition_def keyTTL_def minUpdateDelay_def Millisecond_def Second_def time_Unix_of_def
  time_Unix_def time_Add_def time_Sub_def minDuration_def maxDuration_def Let_def

subsection \<open>Update: bootstrap of a new cell\<close>




subsection \<open>Update: a failed read\<close>

text \<open>
  C2. A read that fails with an error other than not-found should be returned to the
  caller at once. The code does not return it: it goes on with the \<open>result\<close> the failed
  read left and so to a claim attempt. Here the read times out, the claim loses its
  precondition, the loop sleeps and reads again, and \<open>Update\<close> returns without error: the
  caller never learns of the failed read.
\<close>

theorem Update_read_error_not_surfaced:
  "Update [] (NewLeaderElectionCell [''a'', ''leader''] (2 * Second)) ''A''
     [\<lparr>read_resp = (\<lparr>Data = [], TTL = 0\<rparr>, Some (OtherError ''timeout'')),
       now_read = 1000 * Second, now_write = 1000 * Second,
       write_resp = Some PreconditionFailed, ctx_err = False\<rparr>,
      \<lparr>read_resp = (\<lparr>Data = ''B'', TTL = 1005\<rparr>, None),
       now_read = 1001 * Second, now_write = 1001 * Second,
       write_resp = None, ctx_err = False\<rparr>]
   = Some ((''B'', False, 4 * Second, None),
           \<lparr>lastTTL = 1005, leading = False, key = [''a'', ''leader''], ttl = 2 * Second\<rparr>,
           [ReadKey [''a'', ''leader''] (\<lparr>Data = [], TTL = 0\<rparr>, Some (OtherError ''timeout'')),
            Now (1000 * Second),
            Now (1000 * Second),
            WriteTransaction
              \<lparr>keys = [KeySet [''a'', ''leader''] \<lparr>Data = ''A'', TTL = 1002\<rparr> 0],
               conditions = [([''a'', ''leader'', ''ttl''], ConditionIfEqual 0)]\<rparr>
              (Some PreconditionFailed),
            CtxErr False,
            Sleep (500 * Millisecond),
            ReadKey [''a'', ''leader''] (\<lparr>Data = ''B'', TTL = 1005\<rparr>, None),
            Now (1001 * Second)])"
  by (simp add: cell_defs)

subsection \<open>Update: the claim or renew attempt\<close>


text \<open>
  C4. When the write of a claim or renew attempt succeeds, \<open>Update\<close> returns in that pass
  of the loop, whatever the rounds left: the cell has \<open>lastTTL\<close> equal to the expiry just
  written and \<open>leading = True\<close>, and the results are the candidate value,
  \<open>isLeader = true\<close>, half the lease duration and no error. And for a whole call, after
  any number of retries: a successful write among its calls is the last thing it did, and
  the cell and the results are as said.
\<close>

theorem Update_write_success:
  "(Update_decide l val rd = (TryLeaderElection assumeEmpty, l1, tr1) \<longrightarrow>
    write_resp rd = None \<longrightarrow>
      Update def l val (rd # rds) =
        Some ((val, True, ttl l sdiv 2, None),
              l1\<lparr>lastTTL := time_Unix_of (time_Add (now_write rd) (ttl l)), leading := True\<rparr>,
              tr1 @ [Now (now_write rd),
                     WriteTransaction
                       \<lparr>keys = [KeySet (key l)
                                 \<lparr>Data = val,
                                  TTL = time_Unix_of (time_Add (now_write rd) (ttl l))\<rparr> 0],
                        conditions = [if assumeEmpty then (key l, ConditionOldEmpty True)
                                      else (key l @ [keyTTL], ConditionIfEqual (lastTTL l1))]\<rparr>
                       None]))
   \<and> (Update def l val rds' = Some ((v, b, d, e), l', tr) \<longrightarrow>
      WriteTransaction trx None \<in> set tr \<longrightarrow>
        (\<exists>tr0 now. tr = tr0 @ [Now now, WriteTransaction trx None]
           \<and> keys trx = [KeySet (key l) \<lparr>Data = val, TTL = time_Unix_of (time_Add now (ttl l))\<rparr> 0]
           \<and> lastTTL l' = time_Unix_of (time_Add now (ttl l)) \<and> leading l'
           \<and> v = val \<and> b \<and> d = ttl l sdiv 2 \<and> e = None))"
proof (intro conjI impI)
  assume d: "Update_decide l val rd = (TryLeaderElection assumeEmpty, l1, tr1)"
    and w: "write_resp rd = None"
  note fr = Update_decide_frame[OF d]
  show "Update def l val (rd # rds) =
        Some ((val, True, ttl l sdiv 2, None),
              l1\<lparr>lastTTL := time_Unix_of (time_Add (now_write rd) (ttl l)), leading := True\<rparr>,
              tr1 @ [Now (now_write rd),
                     WriteTransaction
                       \<lparr>keys = [KeySet (key l)
                                 \<lparr>Data = val,
                                  TTL = time_Unix_of (time_Add (now_write rd) (ttl l))\<rparr> 0],
                        conditions = [if assumeEmpty then (key l, ConditionOldEmpty True)
                                      else (key l @ [keyTTL], ConditionIfEqual (lastTTL l1))]\<rparr>
                       None])"
    using d w fr
    by (simp add: Update_body_def Update_tryLeaderElection_cases tryBecomeLeader_eq)
next
  assume "Update def l val rds' = Some ((v, b, d, e), l', tr)"
    and "WriteTransaction trx None \<in> set tr"
  then show "\<exists>tr0 now. tr = tr0 @ [Now now, WriteTransaction trx None]
           \<and> keys trx = [KeySet (key l) \<lparr>Data = val, TTL = time_Unix_of (time_Add now (ttl l))\<rparr> 0]
           \<and> lastTTL l' = time_Unix_of (time_Add now (ttl l)) \<and> leading l'
           \<and> v = val \<and> b \<and> d = ttl l sdiv 2 \<and> e = None"
    by (rule Update_successful_write_is_last)
qed

theorem Update_write_success_witness:
  "Update [] (NewLeaderElectionCell [''a'', ''leader''] (3 * Second)) ''B''
     [\<lparr>read_resp = (\<lparr>Data = [], TTL = 0\<rparr>, Some KeyNotFound), now_read = 1000 * Second,
       now_write = 1000 * Second, write_resp = Some PreconditionFailed, ctx_err = False\<rparr>,
      \<lparr>read_resp = (\<lparr>Data = ''A'', TTL = 1000\<rparr>, None), now_read = 1001 * Second,
       now_write = 1001 * Second, write_resp = None, ctx_err = False\<rparr>]
   = Some ((''B'', True, 1500 * Millisecond, None),
           \<lparr>lastTTL = 1004, leading = True, key = [''a'', ''leader''], ttl = 3 * Second\<rparr>,
           [ReadKey [''a'', ''leader''] (\<lparr>Data = [], TTL = 0\<rparr>, Some KeyNotFound),
            Now (1000 * Second),
            WriteTransaction
              \<lparr>keys = [KeySet [''a'', ''leader''] \<lparr>Data = ''B'', TTL = 1003\<rparr> 0],
               conditions = [([''a'', ''leader''], ConditionOldEmpty True)]\<rparr>
              (Some PreconditionFailed),
            CtxErr False,
            Sleep (500 * Millisecond),
            ReadKey [''a'', ''leader''] (\<lparr>Data = ''A'', TTL = 1000\<rparr>, None),
            Now (1001 * Second),
            Now (1001 * Second),
            WriteTransaction
              \<lparr>keys = [KeySet [''a'', ''leader''] \<lparr>Data = ''B'', TTL = 1004\<rparr> 0],
               conditions = [([''a'', ''leader'', ''ttl''], ConditionIfEqual 1000)]\<rparr>
              None])
   \<and> Update [] (NewLeaderElectionCell [''a'', ''leader''] (3 * Second)) ''B''
     [\<lparr>read_resp = (\<lparr>Data = ''A'', TTL = 1000\<rparr>, None), now_read = 1001 * Second,
       now_write = 1001 * Second, write_resp = None, ctx_err = False\<rparr>]
   = Some ((''B'', True, 1500 * Millisecond, None),
           \<lparr>lastTTL = 1004, leading = True, key = [''a'', ''leader''], ttl = 3 * Second\<rparr>,
           [ReadKey [''a'', ''leader''] (\<lparr>Data = ''A'', TTL = 1000\<rparr>, None),
            Now (1001 * Second),
            Now (1001 * Second),
            WriteTransaction
              \<lparr>keys = [KeySet [''a'', ''leader''] \<lparr>Data = ''B'', TTL = 1004\<rparr> 0],
               conditions = [([''a'', ''leader'', ''ttl''], ConditionIfEqual 1000)]\<rparr>
              None])"
  (is "Update [] ?l ''B'' [?rd1, ?rd2] = Some (?res, ?l', ?tr) \<and> Update [] ?l ''B'' [?rd2] = ?R")
proof -
  let ?trx = "\<lparr>keys = [KeySet [''a'', ''leader''] \<lparr>Data = ''B'', TTL = 1004\<rparr> 0],
               conditions = [([''a'', ''leader'', ''ttl''], ConditionIfEqual 1000)]\<rparr>"
  have h: "Update [] ?l ''B'' [?rd1, ?rd2] = Some (?res, ?l', ?tr)"
    by (simp add: cell_defs)
  have m: "WriteTransaction ?trx None \<in> set ?tr"
    by simp
  have d: "Update_decide ?l ''B'' ?rd2
             = (TryLeaderElection False, ?l\<lparr>lastTTL := 1000, leading := False\<rparr>,
                [ReadKey [''a'', ''leader''] (\<lparr>Data = ''A'', TTL = 1000\<rparr>, None),
                 Now (1001 * Second)])"
    by (simp add: cell_defs)
  have w: "write_resp ?rd2 = None"
    by simp
  note t = Update_write_success[of ?l "''B''" ?rd2 False "?l\<lparr>lastTTL := 1000, leading := False\<rparr>"
      "[ReadKey [''a'', ''leader''] (\<lparr>Data = ''A'', TTL = 1000\<rparr>, None), Now (1001 * Second)]"
      "[]" "[]" "[?rd1, ?rd2]" "''B''" True "1500 * Millisecond" None ?l' ?tr ?trx]
  from t have "Update [] ?l ''B'' [?rd2] = ?R"
    using d w by (simp add: cell_defs)
  with h m t show ?thesis
    by simp
qed

text \<open>
  C6. When the write of a claim or renew attempt fails: on a precondition failure with
  the caller's context not done, \<open>Update\<close> sleeps 500ms and starts again from the read,
  with the cell as the failed pass left it; on a precondition failure with the context
  done it returns that error; on any other failure it returns the error at once.
\<close>

theorem Update_write_failure:
  assumes "Update_decide l val rd = (TryLeaderElection assumeEmpty, l1, tr1)"
    and "write_resp rd = Some err"
  shows "Update def l val (rd # rds) =
           (let w = WriteTransaction
                      \<lparr>keys = [KeySet (key l1)
                                \<lparr>Data = val,
                                 TTL = time_Unix_of (time_Add (now_write rd) (ttl l1))\<rparr> 0],
                       conditions = [if assumeEmpty then (key l1, ConditionOldEmpty True)
                                     else (key l1 @ [keyTTL], ConditionIfEqual (lastTTL l1))]\<rparr>
                      (Some err)
            in if \<not> IsPreconditionFailed err
               then Some ((def, False, 0, Some err), l1, tr1 @ [Now (now_write rd), w])
               else if ctx_err rd
               then Some ((def, False, 0, Some err), l1,
                          tr1 @ [Now (now_write rd), w, CtxErr True])
               else map_option
                      (\<lambda>(r, l', tr').
                         (r, l', tr1 @ [Now (now_write rd), w, CtxErr False,
                                        Sleep (500 * Millisecond)] @ tr'))
                      (Update def l1 val rds))"
  using assms
  by (auto simp: Update_body_def Update_tryLeaderElection_cases tryBecomeLeader_eq
                 minUpdateDelay_def Millisecond_def Let_def
           split: option.splits)

theorem Update_write_failure_witness:
  "Update_decide (NewLeaderElectionCell [''a'', ''leader''] (2 * Second)) ''B''
     \<lparr>read_resp = (\<lparr>Data = [], TTL = 0\<rparr>, Some KeyNotFound), now_read = 1000 * Second,
       now_write = 1000 * Second, write_resp = Some PreconditionFailed, ctx_err = False\<rparr>
   = (TryLeaderElection True, NewLeaderElectionCell [''a'', ''leader''] (2 * Second),
      [ReadKey [''a'', ''leader''] (\<lparr>Data = [], TTL = 0\<rparr>, Some KeyNotFound)])
   \<and> Update [] (NewLeaderElectionCell [''a'', ''leader''] (2 * Second)) ''B''
     [\<lparr>read_resp = (\<lparr>Data = [], TTL = 0\<rparr>, Some KeyNotFound), now_read = 1000 * Second,
       now_write = 1000 * Second, write_resp = Some PreconditionFailed, ctx_err = False\<rparr>,
      \<lparr>read_resp = (\<lparr>Data = ''A'', TTL = 1002\<rparr>, None), now_read = 1000 * Second,
       now_write = 1000 * Second, write_resp = None, ctx_err = False\<rparr>]
   = Some ((''A'', False, 2 * Second, None),
           \<lparr>lastTTL = 1002, leading = False, key = [''a'', ''leader''], ttl = 2 * Second\<rparr>,
           [ReadKey [''a'', ''leader''] (\<lparr>Data = [], TTL = 0\<rparr>, Some KeyNotFound),
            Now (1000 * Second),
            WriteTransaction
              \<lparr>keys = [KeySet [''a'', ''leader''] \<lparr>Data = ''B'', TTL = 1002\<rparr> 0],
               conditions = [([''a'', ''leader''], ConditionOldEmpty True)]\<rparr>
              (Some PreconditionFailed),
            CtxErr False,
            Sleep (500 * Millisecond),
            ReadKey [''a'', ''leader''] (\<lparr>Data = ''A'', TTL = 1002\<rparr>, None),
            Now (1000 * Second)])"
proof -
  let ?l = "NewLeaderElectionCell [''a'', ''leader''] (2 * Second)"
  let ?rd = "\<lparr>read_resp = (\<lparr>Data = [], TTL = 0\<rparr>, Some KeyNotFound), now_read = 1000 * Second,
       now_write = 1000 * Second, write_resp = Some PreconditionFailed, ctx_err = False\<rparr>"
  have d: "Update_decide ?l ''B'' ?rd
             = (TryLeaderElection True, ?l,
                [ReadKey [''a'', ''leader''] (\<lparr>Data = [], TTL = 0\<rparr>, Some KeyNotFound)])"
    by (simp add: cell_defs)
  have w: "write_resp ?rd = Some PreconditionFailed"
    by simp
  show ?thesis
    using d Update_write_failure[OF d w, of "[]"
        "[\<lparr>read_resp = (\<lparr>Data = ''A'', TTL = 1002\<rparr>, None), now_read = 1000 * Second,
           now_write = 1000 * Second, write_resp = None, ctx_err = False\<rparr>]"]
    by (simp add: cell_defs)
qed

subsection \<open>Update: what it returns\<close>



text \<open>
  C10. When \<open>Update\<close> returns an error, the value it returns is the zero value of the
  payload type, \<open>isLeader\<close> is false and the delay is 0.
\<close>

theorem Update_error_returns_zero_values:
  assumes "Update def l val rds = Some ((v, b, d, Some e), l', tr)"
  shows "v = def \<and> \<not> b \<and> d = 0"
  using assms
proof (induction rds arbitrary: l tr)
  case Nil
  then show ?case by simp
next
  case (Cons rd rds)
  obtain out l1 tr1 where b: "Update_body def l val rd = (out, l1, tr1)"
    by (cases "Update_body def l val rd") auto
  show ?case
  proof (cases out)
    case (Return r)
    with Cons.prems b have "Update_body def l val rd = (Return (v, b, d, Some e), l', tr)"
      by simp
    then show ?thesis by (rule Update_body_Return_error)
  next
    case Continue
    with Cons.prems b obtain tr' where "Update def l1 val rds = Some ((v, b, d, Some e), l', tr')"
      by (auto split: option.splits)
    then show ?thesis by (rule Cons.IH)
  qed
qed

theorem Update_error_returns_zero_values_witness:
  "Update [] (NewLeaderElectionCell [''a'', ''leader''] (2 * Second)) ''A''
     [\<lparr>read_resp = (\<lparr>Data = [], TTL = 0\<rparr>, Some KeyNotFound), now_read = 1000 * Second,
       now_write = 1000 * Second, write_resp = Some (OtherError ''timeout''),
       ctx_err = False\<rparr>]
   = Some (([], False, 0, Some (OtherError ''timeout'')),
           \<lparr>lastTTL = 0, leading = False, key = [''a'', ''leader''], ttl = 2 * Second\<rparr>,
           [ReadKey [''a'', ''leader''] (\<lparr>Data = [], TTL = 0\<rparr>, Some KeyNotFound),
            Now (1000 * Second),
            WriteTransaction
              \<lparr>keys = [KeySet [''a'', ''leader''] \<lparr>Data = ''A'', TTL = 1002\<rparr> 0],
               conditions = [([''a'', ''leader''], ConditionOldEmpty True)]\<rparr>
              (Some (OtherError ''timeout''))])"
proof -
  have h: "Update [] (NewLeaderElectionCell [''a'', ''leader''] (2 * Second)) ''A''
     [\<lparr>read_resp = (\<lparr>Data = [], TTL = 0\<rparr>, Some KeyNotFound), now_read = 1000 * Second,
       now_write = 1000 * Second, write_resp = Some (OtherError ''timeout''),
       ctx_err = False\<rparr>]
   = Some (([], False, 0, Some (OtherError ''timeout'')),
           \<lparr>lastTTL = 0, leading = False, key = [''a'', ''leader''], ttl = 2 * Second\<rparr>,
           [ReadKey [''a'', ''leader''] (\<lparr>Data = [], TTL = 0\<rparr>, Some KeyNotFound),
            Now (1000 * Second),
            WriteTransaction
              \<lparr>keys = [KeySet [''a'', ''leader''] \<lparr>Data = ''A'', TTL = 1002\<rparr> 0],
               conditions = [([''a'', ''leader''], ConditionOldEmpty True)]\<rparr>
              (Some (OtherError ''timeout''))])"
    by (simp add: cell_defs)
  show ?thesis
    using h Update_error_returns_zero_values[OF h] by simp
qed

subsection \<open>Resign\<close>

text \<open>
  C7. \<open>Resign\<close> on a cell that does not lead returns no error and writes nothing. On a
  cell that leads it issues the delete of the key under the precondition on the TTL
  field, leaves \<open>leading = False\<close> whatever the store answers, returns no error when the
  delete succeeds or loses its precondition, and returns every other error. So a second
  \<open>Resign\<close> right after the first returns no error (and writes nothing), whatever the
  first one met.
\<close>

theorem Resign_idempotent:
  "(Resign l w :: error option \<times> LeaderElectionCell \<times> 'a event list) =
     (if \<not> leading l then (None, l, [])
      else ((case w of
               None \<Rightarrow> None
             | Some err \<Rightarrow> if IsPreconditionFailed err then None else Some err),
            l\<lparr>leading := False\<rparr>,
            [WriteTransaction
               \<lparr>keys = [KeyDelete (key l)],
                conditions = [(key l @ [keyTTL], ConditionIfEqual (lastTTL l))]\<rparr> w]))
   \<and> (Resign (fst (snd (Resign l w :: error option \<times> LeaderElectionCell \<times> 'a event list))) w'
        :: error option \<times> LeaderElectionCell \<times> 'a event list) =
       (None, fst (snd (Resign l w :: error option \<times> LeaderElectionCell \<times> 'a event list)), [])"
  by (simp add: Resign_def trx_defs Let_def split: option.splits)

subsection \<open>Read\<close>

text \<open>
  C8. When the read fails, \<open>Read\<close> returns the zero value of the payload type; the error
  it returns is none when the store reported the key as not found, and otherwise the
  read's own error, unchanged.
\<close>

theorem Read_absent_is_zero_value:
  "fst (Read def l (result, Some err)) =
     (if IsKeyNotFound err then (def, None) else (def, Some err))"
  by (simp add: Read_def readCell_def)

text \<open>
  C9. \<open>Read\<close> leaves the cell as it found it, whatever the store answers: \<open>lastTTL\<close>,
  \<open>leading\<close>, \<open>key\<close> and \<open>ttl\<close> are unchanged.
\<close>

theorem Read_keeps_cell:
  "fst (snd (Read def l rresp)) = l
   \<and> lastTTL (fst (snd (Read def l rresp))) = lastTTL l
   \<and> leading (fst (snd (Read def l rresp))) = leading l
   \<and> key (fst (snd (Read def l rresp))) = key l
   \<and> ttl (fst (snd (Read def l rresp))) = ttl l"
proof -
  have "fst (snd (Read def l rresp)) = l"
    by (cases rresp) (simp add: Read_def readCell_def split: option.splits)
  then show ?thesis by simp
qed

end
